theory Spec2Isabelle
  imports Main "HOL-Library.Multiset" "HOL-Library.Sublist"
begin

section \<open>Python values and dictionaries\<close>

text \<open>
  The serialization methods of the repository (\<^verbatim>\<open>to_dict\<close>, \<^verbatim>\<open>construct_dict\<close>) build
  nested Python dictionaries and lists of strings, integers and \<^verbatim>\<open>None\<close>. A dictionary keeps
  the insertion order of its keys and holds every key once, so it is an association list that is
  only ever extended through \<open>dict_set\<close>.
\<close>

type_synonym ref = nat

datatype pyval =
    PNone
  | PStr string
  | PInt int
  | PList "pyval list"
  | PDict "(string \<times> pyval) list"

type_synonym dict = "(string \<times> pyval) list"

text \<open>\<^verbatim>\<open>d[k] = v\<close>: an existing key keeps its position and takes the new value, a new key is
  appended.\<close>

fun dict_set :: "dict \<Rightarrow> string \<Rightarrow> pyval \<Rightarrow> dict" where
  "dict_set [] k v = [(k, v)]"
| "dict_set ((k', v') # d) k v = (if k' = k then (k, v) # d else (k', v') # dict_set d k v)"

text \<open>\<^verbatim>\<open>{**d, **e}\<close>: the entries of \<open>e\<close> are stored into \<open>d\<close> one by one.\<close>

definition dict_update :: "dict \<Rightarrow> dict \<Rightarrow> dict" where
  "dict_update d e = foldl (\<lambda>acc (k, v). dict_set acc k v) d e"

definition dict_get :: "dict \<Rightarrow> string \<Rightarrow> pyval option" where
  "dict_get d k = map_of d k"

definition keys :: "dict \<Rightarrow> string list" where
  "keys d = map fst d"

text \<open>A value of type \<^verbatim>\<open>str | None\<close> and one of type \<^verbatim>\<open>int | None\<close>.\<close>

definition opt_str :: "string option \<Rightarrow> pyval" where
  "opt_str x = (case x of None \<Rightarrow> PNone | Some s \<Rightarrow> PStr s)"

definition opt_int :: "int option \<Rightarrow> pyval" where
  "opt_int x = (case x of None \<Rightarrow> PNone | Some i \<Rightarrow> PInt i)"

section \<open>server/LRP.py: model elements\<close>

text \<open>\<^verbatim>\<open>Location.__init__\<close> assigns \<^verbatim>\<open>line\<close>, \<^verbatim>\<open>column\<close>, \<^verbatim>\<open>endLine\<close>, \<^verbatim>\<open>endColumn\<close> in this
  order, and \<^verbatim>\<open>Location.to_dict\<close> returns the instance dictionary.\<close>

record Location =
  line :: int
  column :: int
  endLine :: int
  endColumn :: int

definition Location_to_dict :: "Location \<Rightarrow> dict" where
  "Location_to_dict l =
     [(''line'', PInt (line l)), (''column'', PInt (column l)),
      (''endLine'', PInt (endLine l)), (''endColumn'', PInt (endColumn l))]"

text \<open>\<^verbatim>\<open>ModelElement\<close>: the identifier is drawn by \<^verbatim>\<open>uuid.uuid4()\<close> at construction; the model
  takes it as an argument of every constructor. The fields \<^verbatim>\<open>id\<close> and \<^verbatim>\<open>type\<close> are written
  \<open>id'\<close> and \<open>type'\<close> (and \<^verbatim>\<open>output\<close> of a transition \<open>output'\<close>), the unprimed names being taken.\<close>

record ModelElement =
  id' :: string
  type' :: string

definition ModelElement_construct_dict ::
  "'a ModelElement_scheme \<Rightarrow> dict \<Rightarrow> dict \<Rightarrow> dict \<Rightarrow> dict" where
  "ModelElement_construct_dict self attributes children refs =
     [(''id'', PStr (id' self)),
      (''type'', PStr (type' self)),
      (''attributes'', PDict attributes),
      (''children'', PDict children),
      (''refs'', PDict refs)]"

record ASTElement = ModelElement +
  location :: "Location option"

definition ASTElement_construct_dict ::
  "'a ASTElement_scheme \<Rightarrow> dict \<Rightarrow> dict \<Rightarrow> dict \<Rightarrow> dict" where
  "ASTElement_construct_dict self attributes children refs =
     (case location self of
        None \<Rightarrow> ModelElement_construct_dict self attributes children refs
      | Some loc \<Rightarrow>
          dict_set (dict_update [] (ModelElement_construct_dict self attributes children refs))
            ''location'' (PDict (Location_to_dict loc)))"

section \<open>statemachine\_ast/StateMachine.py: the syntax tree\<close>

text \<open>
  States and transitions are objects that refer to each other (a transition to its source and
  target, a state to its parent, its children and its transitions), and the adjacency lists of a
  state are mutated after construction. The objects therefore live in a store that maps an
  address to the object found there; every address holds an object, as every Python reference
  does. \<^verbatim>\<open>InitialState\<close> objects and the root \<^verbatim>\<open>StateMachine\<close> are never mutated through an alias
  and are kept as values.
\<close>

record InitialState =
  init_target :: ref
  init_parent_state :: "ref option"

text \<open>The two concrete classes of \<^verbatim>\<open>State\<close>; only \<^verbatim>\<open>CompositeState\<close> has the attribute
  \<^verbatim>\<open>initial_state\<close>.\<close>

datatype StateClass = SimpleState | CompositeState "InitialState option"

record State = ASTElement +
  name :: "string option"
  parent_state :: "ref option"
  is_final :: bool
  outgoing_transitions :: "ref list"
  incoming_transitions :: "ref list"
  states :: "ref list"
  cls :: StateClass

record Transition = ASTElement +
  source :: ref
  target :: ref
  input :: "string option"
  output' :: "string option"

record StateMachine = ASTElement +
  machine_name :: string
  machine_initial_state :: "InitialState option"
  machine_states :: "ref list"

record Store =
  State_at :: "ref \<Rightarrow> State"
  Transition_at :: "ref \<Rightarrow> Transition"
  next_Transition :: ref

subsection \<open>Constructors\<close>

definition State_init ::
  "string \<Rightarrow> string option \<Rightarrow> ref option \<Rightarrow> bool \<Rightarrow> Location option \<Rightarrow> StateClass \<Rightarrow> State" where
  "State_init new_id nm parent final loc c =
     \<lparr>id' = new_id, type' = ''stateMachine.state'', location = loc,
      name = nm, parent_state = parent, is_final = final,
      outgoing_transitions = [], incoming_transitions = [], states = [], cls = c\<rparr>"

definition SimpleState_init ::
  "string \<Rightarrow> string option \<Rightarrow> ref option \<Rightarrow> bool \<Rightarrow> Location option \<Rightarrow> State" where
  "SimpleState_init new_id nm parent final loc = State_init new_id nm parent final loc SimpleState"

definition CompositeState_init :: "string \<Rightarrow> string \<Rightarrow> Location option \<Rightarrow> State" where
  "CompositeState_init new_id nm loc =
     State_init new_id (Some nm) None False loc (CompositeState None)"

definition InitialState_init :: "Store \<Rightarrow> ref \<Rightarrow> InitialState" where
  "InitialState_init h tgt =
     \<lparr>init_target = tgt, init_parent_state = parent_state (State_at h tgt)\<rparr>"

definition Transition_init ::
  "string \<Rightarrow> ref \<Rightarrow> ref \<Rightarrow> string option \<Rightarrow> string option \<Rightarrow> Location option \<Rightarrow> Transition" where
  "Transition_init new_id src tgt inp out loc =
     \<lparr>id' = new_id, type' = ''stateMachine.transition'', location = loc,
      source = src, target = tgt, input = inp, output' = out\<rparr>"

definition StateMachine_init :: "string \<Rightarrow> string \<Rightarrow> Location option \<Rightarrow> StateMachine" where
  "StateMachine_init new_id nm loc =
     \<lparr>id' = new_id, type' = ''stateMachine.stateMachine'', location = loc,
      machine_name = nm, machine_initial_state = None, machine_states = []\<rparr>"

subsection \<open>Transition.to\_dict\<close>

definition Transition_to_dict :: "Store \<Rightarrow> ref \<Rightarrow> dict" where
  "Transition_to_dict h t =
     (let self = Transition_at h t;
          refs = (if \<not> is_final (State_at h (target self))
                  then dict_set [] ''target'' (PStr (id' (State_at h (target self))))
                  else [])
      in ASTElement_construct_dict self
           [(''input'', opt_str (input self)), (''ouptut'', opt_str (output' self))]
           []
           (dict_update [] refs))"

subsection \<open>Errors and results\<close>

text \<open>
  The only exception raised in the repository is \<^verbatim>\<open>ValueError('No initial state.')\<close>. The
  recursive methods follow references through the store and need not return: they take the
  number of nested calls they may still make, and \<open>None\<close> is the outcome of a call that has not
  returned within it.
\<close>

datatype error = ValueError string

type_synonym 'a result = "(error + 'a) option"

text \<open>\<^verbatim>\<open>list(map(f, xs))\<close> for an \<open>f\<close> that may raise: the elements are computed from left to
  right and the first one that does not return a value ends the computation.\<close>

fun list_of_results :: "'a result list \<Rightarrow> 'a list result" where
  "list_of_results [] = Some (Inr [])"
| "list_of_results (r # rs) =
     (case r of
        None \<Rightarrow> None
      | Some (Inl e) \<Rightarrow> Some (Inl e)
      | Some (Inr x) \<Rightarrow>
          (case list_of_results rs of
             None \<Rightarrow> None
           | Some (Inl e) \<Rightarrow> Some (Inl e)
           | Some (Inr xs) \<Rightarrow> Some (Inr (x # xs))))"

subsection \<open>State: transitions, nesting, depth\<close>

definition append_outgoing :: "Store \<Rightarrow> ref \<Rightarrow> ref \<Rightarrow> Store" where
  "append_outgoing h s t =
     h\<lparr>State_at := (State_at h)
         (s := (State_at h s)\<lparr>outgoing_transitions := outgoing_transitions (State_at h s) @ [t]\<rparr>)\<rparr>"

definition append_incoming :: "Store \<Rightarrow> ref \<Rightarrow> ref \<Rightarrow> Store" where
  "append_incoming h s t =
     h\<lparr>State_at := (State_at h)
         (s := (State_at h s)\<lparr>incoming_transitions := incoming_transitions (State_at h s) @ [t]\<rparr>)\<rparr>"

text \<open>\<^verbatim>\<open>State.add_transitions\<close>: two loops over the given transitions, the first appending to
  the outgoing list of \<^verbatim>\<open>self\<close>, the second to the incoming list of each target.\<close>

definition add_transitions :: "Store \<Rightarrow> ref \<Rightarrow> ref list \<Rightarrow> Store" where
  "add_transitions h self transitions =
     (let h1 = foldl (\<lambda>h' t. append_outgoing h' self t) h transitions
      in foldl (\<lambda>h' t. append_incoming h' (target (Transition_at h' t)) t) h1 transitions)"

text \<open>\<^verbatim>\<open>State.create_transition\<close>: the new transition object is stored at the next free
  address, then appended to the outgoing list of \<^verbatim>\<open>self\<close>, then to the incoming list of the
  target (which may be the same object).\<close>

definition create_transition ::
  "Store \<Rightarrow> string \<Rightarrow> ref \<Rightarrow> ref \<Rightarrow> string option \<Rightarrow> string option \<Rightarrow> Location option \<Rightarrow> Store" where
  "create_transition h new_id self tgt inp out loc =
     (let transition = next_Transition h;
          h1 = h\<lparr>Transition_at :=
                   (Transition_at h)(transition := Transition_init new_id self tgt inp out loc),
                 next_Transition := transition + 1\<rparr>;
          h2 = append_outgoing h1 self transition
      in append_incoming h2 tgt transition)"

text \<open>\<^verbatim>\<open>get_nested_initial_state\<close> of \<^verbatim>\<open>SimpleState\<close> (through \<^verbatim>\<open>State\<close>), \<^verbatim>\<open>CompositeState\<close>
  and \<^verbatim>\<open>InitialState\<close>.\<close>

fun State_get_nested_initial_state :: "nat \<Rightarrow> Store \<Rightarrow> ref \<Rightarrow> ref result"
  and InitialState_get_nested_initial_state :: "nat \<Rightarrow> Store \<Rightarrow> InitialState \<Rightarrow> ref result" where
  "State_get_nested_initial_state 0 h self = None"
| "State_get_nested_initial_state (Suc k) h self =
     (case cls (State_at h self) of
        SimpleState \<Rightarrow> Some (Inr self)
      | CompositeState initial_state \<Rightarrow>
          (case initial_state of
             None \<Rightarrow> Some (Inl (ValueError ''No initial state.''))
           | Some i \<Rightarrow> InitialState_get_nested_initial_state k h i))"
| "InitialState_get_nested_initial_state k h i =
     State_get_nested_initial_state k h (init_target i)"

fun get_depth :: "nat \<Rightarrow> Store \<Rightarrow> ref \<Rightarrow> int option" where
  "get_depth 0 h self = None"
| "get_depth (Suc k) h self =
     (case parent_state (State_at h self) of
        None \<Rightarrow> Some 0
      | Some p \<Rightarrow> (case get_depth k h p of None \<Rightarrow> None | Some d \<Rightarrow> Some (d + 1)))"

subsection \<open>Serialization of states and of the machine\<close>

definition State_construct_dict :: "Store \<Rightarrow> ref \<Rightarrow> dict \<Rightarrow> dict \<Rightarrow> dict \<Rightarrow> dict" where
  "State_construct_dict h s attributes children refs =
     (let self = State_at h s;
          transitions =
            filter (\<lambda>t. \<not> is_final (State_at h (target (Transition_at h t))))
              (outgoing_transitions self);
          final_transitions =
            filter (\<lambda>t. is_final (State_at h (target (Transition_at h t))))
              (outgoing_transitions self)
      in ASTElement_construct_dict self
           (dict_update [(''name'', opt_str (name self))] attributes)
           (dict_update
              [(''transitions'', PList (map (\<lambda>t. PDict (Transition_to_dict h t)) transitions)),
               (''final transitions'',
                  PList (map (\<lambda>t. PDict (Transition_to_dict h t)) final_transitions))]
              children)
           (dict_update [] refs))"

text \<open>\<^verbatim>\<open>SimpleState.to_dict\<close> and \<^verbatim>\<open>CompositeState.to_dict\<close>, selected by the class of the
  object.\<close>

fun State_to_dict :: "nat \<Rightarrow> Store \<Rightarrow> ref \<Rightarrow> dict result" where
  "State_to_dict 0 h s = None"
| "State_to_dict (Suc k) h s =
     (case cls (State_at h s) of
        SimpleState \<Rightarrow> Some (Inr (State_construct_dict h s [] [] []))
      | CompositeState initial_state \<Rightarrow>
          (case initial_state of
             None \<Rightarrow> Some (Inl (ValueError ''No initial state.''))
           | Some i \<Rightarrow>
               (case list_of_results (map (State_to_dict k h) (states (State_at h s))) of
                  None \<Rightarrow> None
                | Some (Inl e) \<Rightarrow> Some (Inl e)
                | Some (Inr ds) \<Rightarrow>
                    Some (Inr (State_construct_dict h s
                      []
                      [(''states'', PList (map PDict ds))]
                      [(''initialState'', PStr (id' (State_at h (init_target i))))])))))"

definition StateMachine_to_dict :: "nat \<Rightarrow> Store \<Rightarrow> StateMachine \<Rightarrow> dict result" where
  "StateMachine_to_dict k h self =
     (case list_of_results (map (State_to_dict k h) (machine_states self)) of
        None \<Rightarrow> None
      | Some (Inl e) \<Rightarrow> Some (Inl e)
      | Some (Inr ds) \<Rightarrow>
          Some (Inr (ASTElement_construct_dict self
            [(''name'', PStr (machine_name self))]
            [(''states'', PList (map PDict ds))]
            [(''initialState'',
                (case machine_initial_state self of
                   None \<Rightarrow> PStr ''''
                 | Some i \<Rightarrow> PStr (id' (State_at h (init_target i)))))])))"

section \<open>server/LRP.py: the runtime snapshot\<close>

text \<open>The class \<^verbatim>\<open>Runtime\<close> (module \<^verbatim>\<open>server.Runtime\<close>) is read by \<^verbatim>\<open>RuntimeState.__init__\<close>
  through five attributes only; the record holds these.\<close>

record Runtime =
  runtime_inputs :: "string list"
  next_transition :: "ref option"
  runtime_next_consumed_input_index :: "int option"
  runtime_current_state :: ref
  runtime_outputs :: "string list"

record RuntimeState = ModelElement +
  inputs :: "string list"
  next_consumed_input_index :: "int option"
  current_state :: ref
  outputs :: "string list"

definition RuntimeState_init :: "string \<Rightarrow> Runtime \<Rightarrow> RuntimeState" where
  "RuntimeState_init new_id runtime =
     \<lparr>id' = new_id, type' = ''stateMachine.runtimeState'',
      inputs = runtime_inputs runtime,
      next_consumed_input_index =
        (if next_transition runtime = None then None
         else runtime_next_consumed_input_index runtime),
      current_state = runtime_current_state runtime,
      outputs = runtime_outputs runtime\<rparr>"

definition RuntimeState_to_dict :: "Store \<Rightarrow> RuntimeState \<Rightarrow> dict" where
  "RuntimeState_to_dict h self =
     (if is_final (State_at h (current_state self))
      then ModelElement_construct_dict self
             [(''inputs'', PList (map PStr (inputs self))),
              (''nextConsumedInputIndex'', opt_int (next_consumed_input_index self)),
              (''outputs'', PList (map PStr (outputs self))),
              (''currentState'', PStr ''FINAL'')]
             []
             []
      else ModelElement_construct_dict self
             [(''inputs'', PList (map PStr (inputs self))),
              (''nextConsumedInputIndex'', opt_int (next_consumed_input_index self)),
              (''outputs'', PList (map PStr (outputs self)))]
             []
             [(''currentState'', PStr (id' (State_at h (current_state self))))])"

section \<open>A sample tree\<close>

text \<open>
  A store whose unused addresses hold an anonymous simple state and a transition without
  trigger, and a tree in it: the simple states \<open>A\<close> (address 0) and \<open>B\<close> (1, final), the
  composite \<open>S1\<close> (2) that contains the composite \<open>S2\<close> (3) that contains the simple \<open>S3\<close> (4),
  each composite entered through its child, and the composite \<open>C\<close> (5) whose initial state was
  never set. Two transitions leave \<open>A\<close>: \<open>t0\<close> to the final state \<open>B\<close> on input \<open>x\<close> with
  output \<open>y\<close>, and the loop \<open>t1\<close> back to \<open>A\<close>.
\<close>

definition blank_store :: Store where
  "blank_store =
     \<lparr>State_at = (\<lambda>_. SimpleState_init '''' None None False None),
      Transition_at = (\<lambda>_. Transition_init '''' 0 0 None None None),
      next_Transition = 0\<rparr>"

definition example_states :: "ref \<Rightarrow> State" where
  "example_states =
     (State_at blank_store)
       (0 := SimpleState_init ''A'' (Some ''A'') None False None,
        1 := SimpleState_init ''B'' (Some ''B'') None True
               (Some \<lparr>line = 3, column = 1, endLine = 3, endColumn = 8\<rparr>),
        2 := (CompositeState_init ''S1'' ''S1'' None)
               \<lparr>states := [3],
                cls := CompositeState (Some \<lparr>init_target = 3, init_parent_state = Some 2\<rparr>)\<rparr>,
        3 := (CompositeState_init ''S2'' ''S2'' None)
               \<lparr>parent_state := Some 2, states := [4],
                cls := CompositeState (Some \<lparr>init_target = 4, init_parent_state = Some 3\<rparr>)\<rparr>,
        4 := SimpleState_init ''S3'' (Some ''S3'') (Some 3) False None,
        5 := CompositeState_init ''C'' ''C'' None)"

definition example_tree :: Store where
  "example_tree = blank_store\<lparr>State_at := example_states\<rparr>"

definition example_store :: Store where
  "example_store =
     create_transition
       (create_transition example_tree ''t0'' 0 1 (Some ''x'') (Some ''y'') None)
       ''t1'' 0 0 None None None"

definition example_runtime :: Runtime where
  "example_runtime =
     \<lparr>runtime_inputs = [''x''], next_transition = None,
      runtime_next_consumed_input_index = Some 1,
      runtime_current_state = 1, runtime_outputs = [''y'']\<rparr>"

definition example_machine :: StateMachine where
  "example_machine = (StateMachine_init ''M'' ''M'' None)\<lparr>machine_states := [0, 1, 2]\<rparr>"

definition unentered_machine :: StateMachine where
  "unentered_machine = (StateMachine_init ''N'' ''N'' None)\<lparr>machine_states := [0, 5]\<rparr>"

section \<open>Initial-state chains\<close>

text \<open>
  \<open>initial_chain h c path t\<close>: starting at \<open>c\<close>, the states of \<open>path\<close> are reached one after
  the other, each as the target of the initial pseudostate of the composite state before it,
  and the last state reached, \<open>t\<close>, is a simple state. The length of \<open>path\<close> is the nesting
  depth of the chain; a simple state is its own chain of depth 0.
\<close>

fun initial_chain :: "Store \<Rightarrow> ref \<Rightarrow> ref list \<Rightarrow> ref \<Rightarrow> bool" where
  "initial_chain h c [] t = (c = t \<and> cls (State_at h t) = SimpleState)"
| "initial_chain h c (x # xs) t =
     (case cls (State_at h c) of
        SimpleState \<Rightarrow> False
      | CompositeState initial_state \<Rightarrow>
          (case initial_state of
             None \<Rightarrow> False
           | Some i \<Rightarrow> init_target i = x \<and> initial_chain h x xs t))"

section \<open>Well-formedness of a tree\<close>

text \<open>
  The containment relation (a state and each state of its \<^verbatim>\<open>states\<close> list), the parent links
  (a state and its \<^verbatim>\<open>parent_state\<close>), and the condition that the initial state of a composite
  state, when set, targets one of the states the composite contains directly.
\<close>

definition contains_rel :: "Store \<Rightarrow> (ref \<times> ref) set" where
  "contains_rel h = {(c, x). x \<in> set (states (State_at h c))}"

definition parent_rel :: "Store \<Rightarrow> (ref \<times> ref) set" where
  "parent_rel h = {(s, p). parent_state (State_at h s) = Some p}"

definition initial_target_contained :: "Store \<Rightarrow> ref \<Rightarrow> bool" where
  "initial_target_contained h c =
     (case cls (State_at h c) of
        SimpleState \<Rightarrow> True
      | CompositeState initial_state \<Rightarrow>
          (case initial_state of
             None \<Rightarrow> True
           | Some i \<Rightarrow> init_target i \<in> set (states (State_at h c))))"

text \<open>A composite state that contains no state and whose initial state targets the
  composite state itself: \<^verbatim>\<open>c = CompositeState('L'); c.initial_state = InitialState(c)\<close>.\<close>

definition self_entered_store :: Store where
  "self_entered_store =
     blank_store\<lparr>State_at := (State_at blank_store)
       (0 := (CompositeState_init ''L'' ''L'' None)
               \<lparr>cls := CompositeState (Some (InitialState_init
                  (blank_store\<lparr>State_at := (State_at blank_store)
                     (0 := CompositeState_init ''L'' ''L'' None)\<rparr>) 0))\<rparr>)\<rparr>"

section \<open>Adjacency of transitions\<close>

text \<open>
  \<open>adjacency_inv\<close>: the adjacency lists hold transitions of the store only, and every transition
  of the store occurs once in the outgoing list of its source, once in the incoming list of its
  target, and in no other outgoing or incoming list.
\<close>

definition adjacency_inv :: "Store \<Rightarrow> bool" where
  "adjacency_inv h =
     ((\<forall>r. set (outgoing_transitions (State_at h r)) \<subseteq> {..<next_Transition h} \<and>
           set (incoming_transitions (State_at h r)) \<subseteq> {..<next_Transition h}) \<and>
      (\<forall>t<next_Transition h. \<forall>r.
         count_list (outgoing_transitions (State_at h r)) t =
           (if r = source (Transition_at h t) then 1 else 0) \<and>
         count_list (incoming_transitions (State_at h r)) t =
           (if r = target (Transition_at h t) then 1 else 0)))"

text \<open>A call \<^verbatim>\<open>source.create_transition(target, input, output, location)\<close> with the identifier
  drawn for the new transition, and a sequence of such calls.\<close>

datatype call =
  Create_transition string ref ref "string option" "string option" "Location option"

fun run_call :: "Store \<Rightarrow> call \<Rightarrow> Store" where
  "run_call h (Create_transition new_id self tgt inp out loc) =
     create_transition h new_id self tgt inp out loc"

definition run_calls :: "Store \<Rightarrow> call list \<Rightarrow> Store" where
  "run_calls h calls = foldl run_call h calls"

text \<open>
  \<open>initial_states_set h s\<close>: the state \<open>s\<close> and every state nested in it, at any depth, is a
  simple state or a composite state whose initial state is set.
\<close>

definition initial_states_set :: "Store \<Rightarrow> ref \<Rightarrow> bool" where
  "initial_states_set h s =
     (\<forall>c. (s, c) \<in> (contains_rel h)\<^sup>* \<longrightarrow> cls (State_at h c) \<noteq> CompositeState None)"

section \<open>Properties of a serialized record\<close>

text \<open>
  \<open>top_level_keys loc d\<close>: the record \<open>d\<close> of an element whose location is \<open>loc\<close> has the five
  keys \<open>id\<close>, \<open>type\<close>, \<open>attributes\<close>, \<open>children\<close>, \<open>refs\<close> and no other when there is no
  location, and these followed by \<open>location\<close>, which holds the four integers of the location,
  when there is one.
\<close>

definition top_level_keys :: "Location option \<Rightarrow> dict \<Rightarrow> bool" where
  "top_level_keys loc d =
     (case loc of
        None \<Rightarrow> keys d = [''id'', ''type'', ''attributes'', ''children'', ''refs'']
      | Some l \<Rightarrow>
          keys d = [''id'', ''type'', ''attributes'', ''children'', ''refs'', ''location''] \<and>
          dict_get d ''location'' =
            Some (PDict [(''line'', PInt (line l)), (''column'', PInt (column l)),
                         (''endLine'', PInt (endLine l)), (''endColumn'', PInt (endColumn l))]))"

text \<open>
  \<open>transitions_partitioned h s d\<close>: in the record \<open>d\<close>, \<open>children.transitions\<close> and
  \<open>children['final transitions']\<close> are the records of two lists \<open>ts\<close> and \<open>fts\<close> that form the
  stable partition of the outgoing transitions of the state \<open>s\<close> by the finality of the target:
  \<open>fts\<close> holds the transitions to a final state and \<open>ts\<close> the others, together they hold every
  outgoing transition exactly as often as the outgoing list does, and each of them keeps the
  order of the outgoing list.
\<close>

definition transitions_partitioned :: "Store \<Rightarrow> ref \<Rightarrow> dict \<Rightarrow> bool" where
  "transitions_partitioned h s d =
     (\<exists>children ts fts.
        dict_get d ''children'' = Some (PDict children) \<and>
        dict_get children ''transitions'' =
          Some (PList (map (\<lambda>t. PDict (Transition_to_dict h t)) ts)) \<and>
        dict_get children ''final transitions'' =
          Some (PList (map (\<lambda>t. PDict (Transition_to_dict h t)) fts)) \<and>
        (fts, ts) = partition (\<lambda>t. is_final (State_at h (target (Transition_at h t))))
                      (outgoing_transitions (State_at h s)) \<and>
        mset ts + mset fts = mset (outgoing_transitions (State_at h s)) \<and>
        (\<forall>t \<in> set ts. \<not> is_final (State_at h (target (Transition_at h t)))) \<and>
        (\<forall>t \<in> set fts. is_final (State_at h (target (Transition_at h t)))) \<and>
        subseq ts (outgoing_transitions (State_at h s)) \<and>
        subseq fts (outgoing_transitions (State_at h s)))"

text \<open>
  The sample tree with four more transitions: \<open>t2\<close> and \<open>t4\<close> from the composite \<open>S1\<close> to the
  final state \<open>B\<close>, \<open>t3\<close> from \<open>S1\<close> to \<open>A\<close>, and \<open>t5\<close> from the composite \<open>C\<close>, whose initial
  state is unset, to \<open>A\<close>.
\<close>

definition branching_store :: Store where
  "branching_store =
     create_transition
       (create_transition
          (create_transition
             (create_transition example_store ''t2'' 2 1 None None None)
             ''t3'' 2 0 None None None)
          ''t4'' 2 1 None None None)
       ''t5'' 5 0 None None None"

lemmas example_defs =
  example_store_def example_tree_def example_states_def blank_store_def create_transition_def
  append_outgoing_def append_incoming_def Transition_init_def State_init_def
  SimpleState_init_def CompositeState_init_def

lemmas dict_defs =
  dict_get_def keys_def dict_update_def opt_str_def opt_int_def
  ASTElement_construct_dict_def ModelElement_construct_dict_def Location_to_dict_def

section \<open>Serialization of a transition\<close>

text \<open>
  Claim C3. The record of a transition has an entry \<open>target\<close> under \<open>refs\<close> exactly when the
  target state of the transition is not final; the entry is then the identifier of the target
  state, and for a final target \<open>refs\<close> has no key \<open>target\<close>.
\<close>

theorem Transition_to_dict_refs_target:
  "\<exists>refs. dict_get (Transition_to_dict h t) ''refs'' = Some (PDict refs) \<and>
     (''target'' \<in> set (keys refs) \<longleftrightarrow> \<not> is_final (State_at h (target (Transition_at h t)))) \<and>
     (\<not> is_final (State_at h (target (Transition_at h t))) \<longrightarrow>
        dict_get refs ''target'' = Some (PStr (id' (State_at h (target (Transition_at h t)))))) \<and>
     (is_final (State_at h (target (Transition_at h t))) \<longrightarrow> dict_get refs ''target'' = None)"
  by (cases "location (Transition_at h t)";
      cases "is_final (State_at h (target (Transition_at h t)))")
    (simp_all add: Transition_to_dict_def Let_def dict_defs)

theorem Transition_to_dict_refs_target_witness:
  "is_final (State_at example_store (target (Transition_at example_store 0))) \<and>
   \<not> is_final (State_at example_store (target (Transition_at example_store 1))) \<and>
   dict_get (Transition_to_dict example_store 0) ''refs'' = Some (PDict []) \<and>
   dict_get (Transition_to_dict example_store 1) ''refs'' = Some (PDict [(''target'', PStr ''A'')])"
  using Transition_to_dict_refs_target [of example_store 0]
    Transition_to_dict_refs_target [of example_store 1]
  by (simp add: example_defs Transition_to_dict_def Let_def dict_defs)

text \<open>
  Claim C7, evaluated on the transition \<open>t0\<close> of the sample tree (input \<open>x\<close>, output \<open>y\<close>): the
  attributes of its record are stored under the keys \<open>input\<close> and \<open>ouptut\<close>, and there is no
  key \<open>output\<close>.
\<close>

theorem Transition_to_dict_attributes_example:
  "dict_get (Transition_to_dict example_store 0) ''attributes'' =
     Some (PDict [(''input'', PStr ''x''), (''ouptut'', PStr ''y'')]) \<and>
   dict_get [(''input'', PStr ''x''), (''ouptut'', PStr ''y'')] ''output'' = None"
  by (simp add: example_defs Transition_to_dict_def Let_def dict_defs)

section \<open>The runtime snapshot\<close>

text \<open>
  Claim C5. When the current state of a runtime snapshot is final, its record has the string
  \<open>FINAL\<close> under \<open>attributes.currentState\<close> and an empty \<open>refs\<close>; otherwise \<open>attributes\<close> has
  no key \<open>currentState\<close> and \<open>refs.currentState\<close> is the identifier of the current state. In
  both cases \<open>attributes\<close> holds \<open>inputs\<close>, \<open>nextConsumedInputIndex\<close> and \<open>outputs\<close> as the
  snapshot has them.
\<close>

theorem RuntimeState_to_dict_current_state:
  "\<exists>attributes refs.
     dict_get (RuntimeState_to_dict h r) ''attributes'' = Some (PDict attributes) \<and>
     dict_get (RuntimeState_to_dict h r) ''refs'' = Some (PDict refs) \<and>
     dict_get attributes ''inputs'' = Some (PList (map PStr (inputs r))) \<and>
     dict_get attributes ''nextConsumedInputIndex'' = Some (opt_int (next_consumed_input_index r)) \<and>
     dict_get attributes ''outputs'' = Some (PList (map PStr (outputs r))) \<and>
     (is_final (State_at h (current_state r)) \<longrightarrow>
        dict_get attributes ''currentState'' = Some (PStr ''FINAL'') \<and> refs = []) \<and>
     (\<not> is_final (State_at h (current_state r)) \<longrightarrow>
        ''currentState'' \<notin> set (keys attributes) \<and>
        dict_get refs ''currentState'' = Some (PStr (id' (State_at h (current_state r)))))"
  by (simp add: RuntimeState_to_dict_def dict_get_def keys_def ModelElement_construct_dict_def)

theorem RuntimeState_to_dict_current_state_witness:
  "is_final (State_at example_store (current_state (RuntimeState_init ''r'' example_runtime))) \<and>
   \<not> is_final (State_at example_store
       (current_state (RuntimeState_init ''r'' (example_runtime\<lparr>runtime_current_state := 0\<rparr>)))) \<and>
   dict_get (RuntimeState_to_dict example_store (RuntimeState_init ''r'' example_runtime)) ''refs''
     = Some (PDict []) \<and>
   dict_get (RuntimeState_to_dict example_store
       (RuntimeState_init ''r'' (example_runtime\<lparr>runtime_current_state := 0\<rparr>))) ''refs''
     = Some (PDict [(''currentState'', PStr ''A'')])"
  using RuntimeState_to_dict_current_state [of example_store "RuntimeState_init ''r'' example_runtime"]
    RuntimeState_to_dict_current_state
      [of example_store "RuntimeState_init ''r'' (example_runtime\<lparr>runtime_current_state := 0\<rparr>)"]
  by (simp add: example_defs example_runtime_def RuntimeState_init_def RuntimeState_to_dict_def
      dict_defs)

text \<open>
  Claim C10. The snapshot built from a runtime that has no next transition has no next consumed
  input index, whatever index the runtime holds, and its record reports \<open>None\<close>; the snapshot of
  a runtime with a next transition has the index of the runtime.
\<close>

theorem RuntimeState_init_next_consumed_input_index:
  "(next_transition r = None \<longrightarrow>
      next_consumed_input_index (RuntimeState_init new_id r) = None \<and>
      (\<exists>attributes.
         dict_get (RuntimeState_to_dict h (RuntimeState_init new_id r)) ''attributes''
           = Some (PDict attributes) \<and>
         dict_get attributes ''nextConsumedInputIndex'' = Some PNone)) \<and>
   (next_transition r \<noteq> None \<longrightarrow>
      next_consumed_input_index (RuntimeState_init new_id r) = runtime_next_consumed_input_index r)"
  by (simp add: RuntimeState_init_def RuntimeState_to_dict_def dict_defs)

theorem RuntimeState_init_next_consumed_input_index_witness:
  "next_transition example_runtime = None \<and>
   runtime_next_consumed_input_index example_runtime = Some 1 \<and>
   next_consumed_input_index (RuntimeState_init ''r'' example_runtime) = None \<and>
   next_transition (example_runtime\<lparr>next_transition := Some 0\<rparr>) \<noteq> None \<and>
   next_consumed_input_index
     (RuntimeState_init ''r'' (example_runtime\<lparr>next_transition := Some 0\<rparr>)) = Some 1"
  using RuntimeState_init_next_consumed_input_index [of example_runtime "''r''" example_store]
    RuntimeState_init_next_consumed_input_index
      [of "example_runtime\<lparr>next_transition := Some 0\<rparr>" "''r''" example_store]
  by (simp add: example_runtime_def)

section \<open>Shape of the serialized records\<close>

lemma keys_ASTElement_construct_dict:
  "keys (ASTElement_construct_dict e a c r) =
     [''id'', ''type'', ''attributes'', ''children'', ''refs''] @
     (case location e of None \<Rightarrow> [] | Some l \<Rightarrow> [''location''])"
  by (cases "location e") (simp_all add: dict_defs)

lemma location_ASTElement_construct_dict:
  "location e = Some l \<Longrightarrow>
   dict_get (ASTElement_construct_dict e a c r) ''location'' = Some (PDict (Location_to_dict l))"
  by (simp add: dict_get_def keys_def dict_update_def ASTElement_construct_dict_def
      ModelElement_construct_dict_def)

lemma entries_ASTElement_construct_dict:
  "dict_get (ASTElement_construct_dict e a c r) ''attributes'' = Some (PDict a)"
  "dict_get (ASTElement_construct_dict e a c r) ''children'' = Some (PDict c)"
  "dict_get (ASTElement_construct_dict e a c r) ''refs'' = Some (PDict r)"
  by (cases "location e"; simp add: dict_defs)+

lemma State_to_dict_Inr:
  assumes "State_to_dict k h s = Some (Inr d)"
  shows "\<exists>c r. d = State_construct_dict h s [] c r \<and> (c = [] \<or> (\<exists>v. c = [(''states'', v)]))"
proof (cases k)
  case 0
  with assms show ?thesis by simp
next
  case (Suc j)
  with assms show ?thesis
    by (auto split: StateClass.splits option.splits sum.splits)
qed

lemma StateMachine_to_dict_Inr:
  assumes "StateMachine_to_dict k h m = Some (Inr d)"
  shows "\<exists>a c r. d = ASTElement_construct_dict m a c r"
  using assms by (auto simp: StateMachine_to_dict_def split: option.splits sum.splits)

lemma list_of_results_map_Inr:
  "(\<forall>x \<in> set xs. \<exists>d. f x = Some (Inr d)) \<Longrightarrow> \<exists>ds. list_of_results (map f xs) = Some (Inr ds)"
  by (induction xs) auto

lemma uniform_fuel:
  "(\<forall>x \<in> set xs. \<exists>n::nat. \<forall>k\<ge>n. \<exists>d. f k x = Some (Inr d)) \<Longrightarrow>
   \<exists>n. \<forall>k\<ge>n. \<forall>x \<in> set xs. \<exists>d. f k x = Some (Inr d)"
proof (induction xs)
  case Nil
  show ?case by simp
next
  case (Cons x xs)
  from Cons.prems obtain n1 where n1: "\<forall>k\<ge>n1. \<exists>d. f k x = Some (Inr d)"
    by auto
  from Cons.prems have "\<forall>x \<in> set xs. \<exists>n. \<forall>k\<ge>n. \<exists>d. f k x = Some (Inr d)"
    by simp
  from Cons.IH [OF this] obtain n2
    where n2: "\<forall>k\<ge>n2. \<forall>x \<in> set xs. \<exists>d. f k x = Some (Inr d)"
    by blast
  from n1 n2 have "\<forall>k\<ge>max n1 n2. \<forall>y \<in> set (x # xs). \<exists>d. f k y = Some (Inr d)"
    by auto
  then show ?case by blast
qed

text \<open>In a tree with well-founded containment, \<open>to_dict\<close> produces a record for every state
  in which no composite state lacks its initial state, and for a machine of such states.\<close>

lemma State_to_dict_produces:
  "wf ((contains_rel h)\<inverse>) \<Longrightarrow> initial_states_set h s \<Longrightarrow>
   \<exists>n. \<forall>k\<ge>n. \<exists>d. State_to_dict k h s = Some (Inr d)"
proof (induction s rule: wf_induct_rule)
  case (less s)
  show ?case
  proof (cases "cls (State_at h s)")
    case SimpleState
    then have "\<forall>k\<ge>1. \<exists>d. State_to_dict k h s = Some (Inr d)"
      by (auto simp: Suc_le_eq gr0_conv_Suc)
    then show ?thesis by blast
  next
    case (CompositeState initial_state)
    from less.prems have "cls (State_at h s) \<noteq> CompositeState None"
      unfolding initial_states_set_def by blast
    with CompositeState obtain i where i: "initial_state = Some i"
      by (cases initial_state) auto
    have "\<forall>x \<in> set (states (State_at h s)). \<exists>n. \<forall>k\<ge>n. \<exists>d. State_to_dict k h x = Some (Inr d)"
    proof
      fix x assume "x \<in> set (states (State_at h s))"
      then have step: "(s, x) \<in> contains_rel h"
        by (simp add: contains_rel_def)
      then have below: "(x, s) \<in> (contains_rel h)\<inverse>"
        by simp
      from less.prems step have "initial_states_set h x"
        unfolding initial_states_set_def by (blast intro: converse_rtrancl_into_rtrancl)
      with below show "\<exists>n. \<forall>k\<ge>n. \<exists>d. State_to_dict k h x = Some (Inr d)"
        by (rule less.IH)
    qed
    from uniform_fuel [where f = "\<lambda>k x. State_to_dict k h x", OF this] obtain n
      where n: "\<forall>k\<ge>n. \<forall>x \<in> set (states (State_at h s)). \<exists>d. State_to_dict k h x = Some (Inr d)"
      by blast
    have "\<forall>k\<ge>Suc n. \<exists>d. State_to_dict k h s = Some (Inr d)"
    proof (intro allI impI)
      fix k assume "Suc n \<le> k"
      then obtain j where j: "k = Suc j" "n \<le> j"
        by (cases k) auto
      with n have "\<forall>x \<in> set (states (State_at h s)). \<exists>d. State_to_dict j h x = Some (Inr d)"
        by simp
      then obtain ds
        where "list_of_results (map (State_to_dict j h) (states (State_at h s))) = Some (Inr ds)"
        using list_of_results_map_Inr by blast
      with CompositeState i j show "\<exists>d. State_to_dict k h s = Some (Inr d)"
        by simp
    qed
    then show ?thesis by blast
  qed
qed

lemma StateMachine_to_dict_produces:
  assumes wf: "wf ((contains_rel h)\<inverse>)"
    and set: "\<forall>s \<in> set (machine_states m). initial_states_set h s"
  shows "\<exists>n. \<forall>k\<ge>n. \<exists>d. StateMachine_to_dict k h m = Some (Inr d)"
proof -
  from wf set
  have "\<forall>s \<in> set (machine_states m). \<exists>n. \<forall>k\<ge>n. \<exists>d. State_to_dict k h s = Some (Inr d)"
    by (simp add: State_to_dict_produces)
  from uniform_fuel [where f = "\<lambda>k x. State_to_dict k h x", OF this] obtain n
    where n: "\<forall>k\<ge>n. \<forall>s \<in> set (machine_states m). \<exists>d. State_to_dict k h s = Some (Inr d)"
    by blast
  have "\<forall>k\<ge>n. \<exists>d. StateMachine_to_dict k h m = Some (Inr d)"
  proof (intro allI impI)
    fix k assume "n \<le> k"
    with n have "\<forall>s \<in> set (machine_states m). \<exists>d. State_to_dict k h s = Some (Inr d)"
      by simp
    then obtain ds
      where "list_of_results (map (State_to_dict k h) (machine_states m)) = Some (Inr ds)"
      using list_of_results_map_Inr by blast
    then show "\<exists>d. StateMachine_to_dict k h m = Some (Inr d)"
      by (simp add: StateMachine_to_dict_def)
  qed
  then show ?thesis ..
qed

lemma top_level_keys_ASTElement_construct_dict:
  "top_level_keys (location e) (ASTElement_construct_dict e a c r)"
  by (cases "location e")
    (simp_all add: top_level_keys_def keys_ASTElement_construct_dict
      location_ASTElement_construct_dict Location_to_dict_def)

lemma top_level_keys_State_to_dict:
  assumes "State_to_dict k h s = Some (Inr d)"
  shows "top_level_keys (location (State_at h s)) d"
proof -
  from State_to_dict_Inr [OF assms] obtain c r where "d = State_construct_dict h s [] c r"
    by blast
  then show ?thesis
    by (simp add: State_construct_dict_def Let_def top_level_keys_ASTElement_construct_dict)
qed

lemma top_level_keys_StateMachine_to_dict:
  assumes "StateMachine_to_dict k h m = Some (Inr d)"
  shows "top_level_keys (location m) d"
proof -
  from StateMachine_to_dict_Inr [OF assms] obtain a c r
    where "d = ASTElement_construct_dict m a c r" by blast
  then show ?thesis
    by (simp add: top_level_keys_ASTElement_construct_dict)
qed

lemma states_create_transition:
  "states (State_at (create_transition h new_id s g inp out loc) r) = states (State_at h r)"
  by (simp add: create_transition_def append_outgoing_def append_incoming_def Let_def)

lemma cls_create_transition:
  "cls (State_at (create_transition h new_id s g inp out loc) r) = cls (State_at h r)"
  by (simp add: create_transition_def append_outgoing_def append_incoming_def Let_def)

lemma contains_rel_create_transition:
  "contains_rel (create_transition h new_id s g inp out loc) = contains_rel h"
  by (simp add: contains_rel_def states_create_transition)

lemma acyclic_empty_rel: "acyclic ({} :: (ref \<times> ref) set)"
  by (simp add: acyclic_def)

lemma contains_rel_example: "contains_rel example_store = {(2, 3), (3, 4)}"
  by (auto simp: contains_rel_def example_defs split: if_splits)

lemma contains_rel_example_wf:
  "finite (contains_rel example_store)" "acyclic (contains_rel example_store)"
  by (simp_all add: contains_rel_example rtrancl_insert acyclic_empty_rel)

lemma nested_in_example:
  "(s, c) \<in> (contains_rel example_store)\<^sup>* \<Longrightarrow> c = s \<or> c = 3 \<or> c = 4"
  by (induction rule: rtrancl_induct) (auto simp: contains_rel_example)

lemma initial_states_set_example:
  "s = 0 \<or> s = 1 \<or> s = 2 \<Longrightarrow> initial_states_set example_store s"
  unfolding initial_states_set_def
proof (intro allI impI)
  fix c
  assume s: "s = 0 \<or> s = 1 \<or> s = 2" and "(s, c) \<in> (contains_rel example_store)\<^sup>*"
  then have "c = s \<or> c = 3 \<or> c = 4"
    by (simp add: nested_in_example)
  with s have "c = 0 \<or> c = 1 \<or> c = 2 \<or> c = 3 \<or> c = 4"
    by blast
  then show "cls (State_at example_store c) \<noteq> CompositeState None"
    by (auto simp: example_defs)
qed

text \<open>
  Claim C6, as the code has it. \<open>to_dict\<close> of a transition and of a runtime snapshot always
  produces a record; \<open>to_dict\<close> of a simple state does; \<open>to_dict\<close> of any state, and of a state
  machine, of a finite tree with acyclic containment in which no composite state lacks its
  initial state produces a record, given enough nested calls. Each of these records, and every
  other record that \<open>to_dict\<close> returns, has exactly the keys \<open>id\<close>, \<open>type\<close>, \<open>attributes\<close>,
  \<open>children\<close>, \<open>refs\<close>, in this order, followed for a syntax-tree element that has a location,
  and for no other, by the key \<open>location\<close> that holds the four integers \<open>line\<close>, \<open>column\<close>,
  \<open>endLine\<close>, \<open>endColumn\<close>.
\<close>

theorem to_dict_top_level_keys:
  "top_level_keys (location (Transition_at h t)) (Transition_to_dict h t) \<and>
   top_level_keys None (RuntimeState_to_dict h r) \<and>
   (cls (State_at h s) = SimpleState \<longrightarrow>
      (\<exists>d. State_to_dict (Suc k) h s = Some (Inr d) \<and>
           top_level_keys (location (State_at h s)) d)) \<and>
   (finite (contains_rel h) \<and> acyclic (contains_rel h) \<and> initial_states_set h s \<longrightarrow>
      (\<exists>n. \<forall>k\<ge>n. \<exists>d. State_to_dict k h s = Some (Inr d) \<and>
           top_level_keys (location (State_at h s)) d)) \<and>
   (finite (contains_rel h) \<and> acyclic (contains_rel h) \<and>
    (\<forall>s \<in> set (machine_states m). initial_states_set h s) \<longrightarrow>
      (\<exists>n. \<forall>k\<ge>n. \<exists>d. StateMachine_to_dict k h m = Some (Inr d) \<and>
           top_level_keys (location m) d)) \<and>
   (State_to_dict k h s = Some (Inr d) \<longrightarrow> top_level_keys (location (State_at h s)) d) \<and>
   (StateMachine_to_dict k h m = Some (Inr d') \<longrightarrow> top_level_keys (location m) d')"
proof (intro conjI impI)
  show "top_level_keys (location (Transition_at h t)) (Transition_to_dict h t)"
    by (simp add: Transition_to_dict_def Let_def top_level_keys_ASTElement_construct_dict)
next
  show "top_level_keys None (RuntimeState_to_dict h r)"
    by (simp add: top_level_keys_def RuntimeState_to_dict_def keys_def
        ModelElement_construct_dict_def)
next
  assume "cls (State_at h s) = SimpleState"
  then have "State_to_dict (Suc k) h s = Some (Inr (State_construct_dict h s [] [] []))"
    by simp
  then show "\<exists>d. State_to_dict (Suc k) h s = Some (Inr d) \<and>
      top_level_keys (location (State_at h s)) d"
    using top_level_keys_State_to_dict by blast
next
  assume "finite (contains_rel h) \<and> acyclic (contains_rel h) \<and> initial_states_set h s"
  then have "wf ((contains_rel h)\<inverse>)" and "initial_states_set h s"
    by (simp_all add: finite_acyclic_wf_converse)
  then have "\<exists>n. \<forall>k\<ge>n. \<exists>d. State_to_dict k h s = Some (Inr d)"
    by (rule State_to_dict_produces)
  then show "\<exists>n. \<forall>k\<ge>n. \<exists>d. State_to_dict k h s = Some (Inr d) \<and>
      top_level_keys (location (State_at h s)) d"
    using top_level_keys_State_to_dict by blast
next
  assume "finite (contains_rel h) \<and> acyclic (contains_rel h) \<and>
    (\<forall>s \<in> set (machine_states m). initial_states_set h s)"
  then have "wf ((contains_rel h)\<inverse>)"
    and "\<forall>s \<in> set (machine_states m). initial_states_set h s"
    by (simp_all add: finite_acyclic_wf_converse)
  then have "\<exists>n. \<forall>k\<ge>n. \<exists>d. StateMachine_to_dict k h m = Some (Inr d)"
    by (rule StateMachine_to_dict_produces)
  then show "\<exists>n. \<forall>k\<ge>n. \<exists>d. StateMachine_to_dict k h m = Some (Inr d) \<and>
      top_level_keys (location m) d"
    using top_level_keys_StateMachine_to_dict by blast
next
  assume "State_to_dict k h s = Some (Inr d)"
  then show "top_level_keys (location (State_at h s)) d"
    by (rule top_level_keys_State_to_dict)
next
  assume "StateMachine_to_dict k h m = Some (Inr d')"
  then show "top_level_keys (location m) d'"
    by (rule top_level_keys_StateMachine_to_dict)
qed

theorem to_dict_top_level_keys_witness:
  "finite (contains_rel example_store) \<and> acyclic (contains_rel example_store) \<and>
   cls (State_at example_store 1) = SimpleState \<and>
   cls (State_at example_store 2) =
     CompositeState (Some \<lparr>init_target = 3, init_parent_state = Some 2\<rparr>) \<and>
   machine_states example_machine = [0, 1, 2] \<and>
   location (State_at example_store 1) =
     Some \<lparr>line = 3, column = 1, endLine = 3, endColumn = 8\<rparr> \<and>
   location (State_at example_store 2) = None \<and>
   location example_machine = None \<and>
   (\<exists>d. State_to_dict 1 example_store 1 = Some (Inr d) \<and>
      keys d = [''id'', ''type'', ''attributes'', ''children'', ''refs'', ''location''] \<and>
      dict_get d ''location'' =
        Some (PDict [(''line'', PInt 3), (''column'', PInt 1),
                     (''endLine'', PInt 3), (''endColumn'', PInt 8)])) \<and>
   (\<exists>n d. State_to_dict n example_store 2 = Some (Inr d) \<and>
      keys d = [''id'', ''type'', ''attributes'', ''children'', ''refs'']) \<and>
   (\<exists>n d. StateMachine_to_dict n example_store example_machine = Some (Inr d) \<and>
      keys d = [''id'', ''type'', ''attributes'', ''children'', ''refs''])"
proof -
  note inst = to_dict_top_level_keys [where h = example_store and m = example_machine]
  have c1: "cls (State_at example_store 1) = SimpleState"
    and c2: "cls (State_at example_store 2) =
      CompositeState (Some \<lparr>init_target = 3, init_parent_state = Some 2\<rparr>)"
    and l1: "location (State_at example_store 1) =
      Some \<lparr>line = 3, column = 1, endLine = 3, endColumn = 8\<rparr>"
    and l2: "location (State_at example_store 2) = None"
    by (simp_all add: example_defs)
  have ms: "machine_states example_machine = [0, 1, 2]"
    and lm: "location example_machine = None"
    by (simp_all add: example_machine_def StateMachine_init_def)
  from inst [where s = 1 and k = 0] c1 l1
  have simple: "\<exists>d. State_to_dict 1 example_store 1 = Some (Inr d) \<and>
      keys d = [''id'', ''type'', ''attributes'', ''children'', ''refs'', ''location''] \<and>
      dict_get d ''location'' =
        Some (PDict [(''line'', PInt 3), (''column'', PInt 1),
                     (''endLine'', PInt 3), (''endColumn'', PInt 8)])"
    by (simp add: top_level_keys_def)
  from inst [where s = 2] contains_rel_example_wf initial_states_set_example [of 2] l2
  have "\<exists>n. \<forall>k\<ge>n. \<exists>d. State_to_dict k example_store 2 = Some (Inr d) \<and>
      keys d = [''id'', ''type'', ''attributes'', ''children'', ''refs'']"
    by (simp add: top_level_keys_def)
  then have composite: "\<exists>n d. State_to_dict n example_store 2 = Some (Inr d) \<and>
      keys d = [''id'', ''type'', ''attributes'', ''children'', ''refs'']"
    by blast
  from inst [where s = 2] contains_rel_example_wf initial_states_set_example ms lm
  have "\<exists>n. \<forall>k\<ge>n. \<exists>d. StateMachine_to_dict k example_store example_machine = Some (Inr d) \<and>
      keys d = [''id'', ''type'', ''attributes'', ''children'', ''refs'']"
    by (simp add: top_level_keys_def)
  then have machine: "\<exists>n d. StateMachine_to_dict n example_store example_machine = Some (Inr d) \<and>
      keys d = [''id'', ''type'', ''attributes'', ''children'', ''refs'']"
    by blast
  from contains_rel_example_wf c1 c2 ms l1 l2 lm simple composite machine
  show ?thesis by blast
qed

text \<open>
  Claim C6 as stated fails on the composite state \<open>C\<close> of the sample tree, whose initial state
  is unset: \<open>to_dict\<close> raises on it whatever the number of nested calls, and produces no
  record.
\<close>

theorem to_dict_top_level_keys_counterexample:
  "cls (State_at example_store 5) = CompositeState None \<and>
   (\<forall>k. State_to_dict (Suc k) example_store 5 = Some (Inl (ValueError ''No initial state.''))) \<and>
   (\<forall>k d. State_to_dict k example_store 5 \<noteq> Some (Inr d))"
proof -
  have c: "cls (State_at example_store 5) = CompositeState None"
    by (simp add: example_defs)
  then have raises: "State_to_dict (Suc k) example_store 5 =
      Some (Inl (ValueError ''No initial state.''))" for k
    by simp
  have "State_to_dict k example_store 5 \<noteq> Some (Inr d)" for k d
  proof (cases k)
    case 0
    then show ?thesis by simp
  next
    case (Suc j)
    with raises [of j] show ?thesis by simp
  qed
  with c raises show ?thesis by blast
qed

section \<open>The transitions of a serialized state\<close>

lemma children_State_construct_dict:
  assumes "c = [] \<or> (\<exists>v. c = [(''states'', v)])"
  shows "\<exists>ch. dict_get (State_construct_dict h s a c r) ''children'' = Some (PDict ch) \<and>
     dict_get ch ''transitions'' =
       Some (PList (map (\<lambda>t. PDict (Transition_to_dict h t))
         (filter (\<lambda>t. \<not> is_final (State_at h (target (Transition_at h t))))
            (outgoing_transitions (State_at h s))))) \<and>
     dict_get ch ''final transitions'' =
       Some (PList (map (\<lambda>t. PDict (Transition_to_dict h t))
         (filter (\<lambda>t. is_final (State_at h (target (Transition_at h t))))
            (outgoing_transitions (State_at h s)))))"
  using assms unfolding State_construct_dict_def Let_def entries_ASTElement_construct_dict
  by (auto simp: dict_update_def dict_get_def)

lemma mset_filter_both: "mset (filter (\<lambda>x. \<not> P x) xs) + mset (filter P xs) = mset xs"
  by (induction xs) simp_all

lemma transitions_partitioned_State_to_dict:
  assumes "State_to_dict k h s = Some (Inr d)"
  shows "transitions_partitioned h s d"
proof -
  let ?final = "\<lambda>t. is_final (State_at h (target (Transition_at h t)))"
  let ?out = "outgoing_transitions (State_at h s)"
  from State_to_dict_Inr [OF assms] obtain c r
    where d: "d = State_construct_dict h s [] c r"
      and c: "c = [] \<or> (\<exists>v. c = [(''states'', v)])"
    by blast
  from children_State_construct_dict [OF c, of h s "[]" r] d obtain ch
    where ch: "dict_get d ''children'' = Some (PDict ch)"
      "dict_get ch ''transitions'' =
         Some (PList (map (\<lambda>t. PDict (Transition_to_dict h t)) (filter (\<lambda>t. \<not> ?final t) ?out)))"
      "dict_get ch ''final transitions'' =
         Some (PList (map (\<lambda>t. PDict (Transition_to_dict h t)) (filter ?final ?out)))"
    by blast
  have p: "(filter ?final ?out, filter (\<lambda>t. \<not> ?final t) ?out) = partition ?final ?out"
    by (simp add: comp_def)
  have m: "mset (filter (\<lambda>t. \<not> ?final t) ?out) + mset (filter ?final ?out) = mset ?out"
    by (rule mset_filter_both)
  have f: "\<forall>t \<in> set (filter (\<lambda>t. \<not> ?final t) ?out). \<not> ?final t"
    "\<forall>t \<in> set (filter ?final ?out). ?final t"
    by simp_all
  have o: "subseq (filter (\<lambda>t. \<not> ?final t) ?out) ?out" "subseq (filter ?final ?out) ?out"
    by simp_all
  from ch p m f o show ?thesis
    unfolding transitions_partitioned_def by blast
qed

lemma contains_rel_branching: "contains_rel branching_store = contains_rel example_store"
  by (simp add: branching_store_def contains_rel_create_transition)

lemma cls_branching: "cls (State_at branching_store r) = cls (State_at example_store r)"
  by (simp add: branching_store_def cls_create_transition)

lemma initial_states_set_branching: "initial_states_set branching_store 2"
  using initial_states_set_example [of 2]
  by (simp add: initial_states_set_def contains_rel_branching cls_branching)

text \<open>
  Claim C2, as the code has it. \<open>to_dict\<close> produces a record for every simple state, and,
  given enough nested calls, for every state of a finite tree with acyclic containment in which
  neither the state nor a state nested in it is a composite state without initial state. In
  each of these records, and in every other record that \<open>to_dict\<close> of a state returns,
  \<open>children.transitions\<close> and \<open>children['final transitions']\<close> form the stable partition of
  the outgoing transitions of the state by the finality of the target: every outgoing
  transition is in exactly one of the two lists (in \<open>final transitions\<close> when its target is
  final, in \<open>transitions\<close> otherwise), none is duplicated, and both lists keep the order of the
  outgoing list.
\<close>

theorem State_to_dict_transitions_partition:
  "(cls (State_at h s) = SimpleState \<longrightarrow>
      (\<exists>d. State_to_dict (Suc k) h s = Some (Inr d) \<and> transitions_partitioned h s d)) \<and>
   (finite (contains_rel h) \<and> acyclic (contains_rel h) \<and> initial_states_set h s \<longrightarrow>
      (\<exists>n. \<forall>k\<ge>n. \<exists>d. State_to_dict k h s = Some (Inr d) \<and> transitions_partitioned h s d)) \<and>
   (State_to_dict k h s = Some (Inr d) \<longrightarrow> transitions_partitioned h s d)"
proof (intro conjI impI)
  assume "cls (State_at h s) = SimpleState"
  then have "State_to_dict (Suc k) h s = Some (Inr (State_construct_dict h s [] [] []))"
    by simp
  then show "\<exists>d. State_to_dict (Suc k) h s = Some (Inr d) \<and> transitions_partitioned h s d"
    using transitions_partitioned_State_to_dict by blast
next
  assume "finite (contains_rel h) \<and> acyclic (contains_rel h) \<and> initial_states_set h s"
  then have "wf ((contains_rel h)\<inverse>)" and "initial_states_set h s"
    by (simp_all add: finite_acyclic_wf_converse)
  then have "\<exists>n. \<forall>k\<ge>n. \<exists>d. State_to_dict k h s = Some (Inr d)"
    by (rule State_to_dict_produces)
  then show "\<exists>n. \<forall>k\<ge>n. \<exists>d. State_to_dict k h s = Some (Inr d) \<and> transitions_partitioned h s d"
    using transitions_partitioned_State_to_dict by blast
next
  assume "State_to_dict k h s = Some (Inr d)"
  then show "transitions_partitioned h s d"
    by (rule transitions_partitioned_State_to_dict)
qed

theorem State_to_dict_transitions_partition_witness:
  "finite (contains_rel branching_store) \<and> acyclic (contains_rel branching_store) \<and>
   cls (State_at branching_store 0) = SimpleState \<and>
   cls (State_at branching_store 2) =
     CompositeState (Some \<lparr>init_target = 3, init_parent_state = Some 2\<rparr>) \<and>
   outgoing_transitions (State_at branching_store 0) = [0, 1] \<and>
   outgoing_transitions (State_at branching_store 2) = [2, 3, 4] \<and>
   (\<exists>d children.
      State_to_dict 1 branching_store 0 = Some (Inr d) \<and>
      dict_get d ''children'' = Some (PDict children) \<and>
      dict_get children ''transitions'' =
        Some (PList [PDict (Transition_to_dict branching_store 1)]) \<and>
      dict_get children ''final transitions'' =
        Some (PList [PDict (Transition_to_dict branching_store 0)])) \<and>
   (\<exists>n d children.
      State_to_dict n branching_store 2 = Some (Inr d) \<and>
      dict_get d ''children'' = Some (PDict children) \<and>
      dict_get children ''transitions'' =
        Some (PList [PDict (Transition_to_dict branching_store 3)]) \<and>
      dict_get children ''final transitions'' =
        Some (PList [PDict (Transition_to_dict branching_store 2),
                     PDict (Transition_to_dict branching_store 4)]))"
proof -
  note inst = State_to_dict_transitions_partition [where h = branching_store]
  have wf: "finite (contains_rel branching_store)" "acyclic (contains_rel branching_store)"
    by (simp_all add: contains_rel_branching contains_rel_example_wf)
  have c: "cls (State_at branching_store 0) = SimpleState"
    "cls (State_at branching_store 2) =
       CompositeState (Some \<lparr>init_target = 3, init_parent_state = Some 2\<rparr>)"
    by (simp_all add: cls_branching, simp_all add: example_defs)
  have out: "outgoing_transitions (State_at branching_store 0) = [0, 1]"
    "outgoing_transitions (State_at branching_store 2) = [2, 3, 4]"
    by (simp_all add: branching_store_def example_defs)
  have fin: "is_final (State_at branching_store (target (Transition_at branching_store 0)))"
    "\<not> is_final (State_at branching_store (target (Transition_at branching_store 1)))"
    "is_final (State_at branching_store (target (Transition_at branching_store 2)))"
    "\<not> is_final (State_at branching_store (target (Transition_at branching_store 3)))"
    "is_final (State_at branching_store (target (Transition_at branching_store 4)))"
    by (simp_all add: branching_store_def example_defs)
  from inst [where s = 0 and k = 0] c out fin
  have simple: "\<exists>d children.
      State_to_dict 1 branching_store 0 = Some (Inr d) \<and>
      dict_get d ''children'' = Some (PDict children) \<and>
      dict_get children ''transitions'' =
        Some (PList [PDict (Transition_to_dict branching_store 1)]) \<and>
      dict_get children ''final transitions'' =
        Some (PList [PDict (Transition_to_dict branching_store 0)])"
    by (auto simp: transitions_partitioned_def)
  from inst [where s = 2] wf initial_states_set_branching
  have "\<exists>n. \<forall>k\<ge>n. \<exists>d. State_to_dict k branching_store 2 = Some (Inr d) \<and>
      transitions_partitioned branching_store 2 d"
    by simp
  then obtain n d where "State_to_dict n branching_store 2 = Some (Inr d)"
    and "transitions_partitioned branching_store 2 d"
    by blast
  with out fin have composite: "\<exists>n d children.
      State_to_dict n branching_store 2 = Some (Inr d) \<and>
      dict_get d ''children'' = Some (PDict children) \<and>
      dict_get children ''transitions'' =
        Some (PList [PDict (Transition_to_dict branching_store 3)]) \<and>
      dict_get children ''final transitions'' =
        Some (PList [PDict (Transition_to_dict branching_store 2),
                     PDict (Transition_to_dict branching_store 4)])"
    by (auto simp: transitions_partitioned_def)
  from wf c out simple composite show ?thesis by blast
qed

text \<open>
  Claim C2 as stated fails on the composite state \<open>C\<close> of \<open>branching_store\<close>: it has the
  outgoing transition \<open>t5\<close>, but its initial state is unset, so \<open>to_dict\<close> raises on it
  whatever the number of nested calls and no serialized record holds \<open>t5\<close>.
\<close>

theorem State_to_dict_transitions_partition_counterexample:
  "cls (State_at branching_store 5) = CompositeState None \<and>
   outgoing_transitions (State_at branching_store 5) = [5] \<and>
   (\<forall>k. State_to_dict (Suc k) branching_store 5 = Some (Inl (ValueError ''No initial state.''))) \<and>
   (\<forall>k d. State_to_dict k branching_store 5 \<noteq> Some (Inr d))"
proof -
  have c: "cls (State_at branching_store 5) = CompositeState None"
    by (simp add: cls_branching, simp add: example_defs)
  have out: "outgoing_transitions (State_at branching_store 5) = [5]"
    by (simp add: branching_store_def example_defs)
  from c have raises: "State_to_dict (Suc k) branching_store 5 =
      Some (Inl (ValueError ''No initial state.''))" for k
    by simp
  have "State_to_dict k branching_store 5 \<noteq> Some (Inr d)" for k d
  proof (cases k)
    case 0
    then show ?thesis by simp
  next
    case (Suc j)
    with raises [of j] show ?thesis by simp
  qed
  with c out raises show ?thesis by blast
qed

section \<open>A missing initial state\<close>

text \<open>
  Claim C4, as the code has it. A state machine all of whose states serialize serializes to a
  record, whether or not its initial state is set: \<open>refs.initialState\<close> is the empty string
  when it is unset and the identifier of the target of the initial state when it is set. A
  composite state whose initial state is unset raises \<open>ValueError('No initial state.')\<close> and
  produces no record.
\<close>

theorem to_dict_unset_initial_state:
  "((\<forall>s \<in> set (machine_states m). \<exists>d. State_to_dict k h s = Some (Inr d)) \<longrightarrow>
      (\<exists>d refs.
         StateMachine_to_dict k h m = Some (Inr d) \<and>
         dict_get d ''refs'' = Some (PDict refs) \<and>
         dict_get refs ''initialState'' =
           Some (PStr (case machine_initial_state m of
                         None \<Rightarrow> ''''
                       | Some i \<Rightarrow> id' (State_at h (init_target i)))))) \<and>
   (cls (State_at h c) = CompositeState None \<longrightarrow>
      State_to_dict (Suc k) h c = Some (Inl (ValueError ''No initial state.'')))"
proof (intro conjI impI)
  assume "\<forall>s \<in> set (machine_states m). \<exists>d. State_to_dict k h s = Some (Inr d)"
  then obtain ds
    where "list_of_results (map (State_to_dict k h) (machine_states m)) = Some (Inr ds)"
    using list_of_results_map_Inr by blast
  then show "\<exists>d refs.
      StateMachine_to_dict k h m = Some (Inr d) \<and>
      dict_get d ''refs'' = Some (PDict refs) \<and>
      dict_get refs ''initialState'' =
        Some (PStr (case machine_initial_state m of
                      None \<Rightarrow> ''''
                    | Some i \<Rightarrow> id' (State_at h (init_target i))))"
    unfolding StateMachine_to_dict_def
    by (cases "machine_initial_state m")
      (simp_all add: entries_ASTElement_construct_dict, simp_all add: dict_get_def)
next
  assume "cls (State_at h c) = CompositeState None"
  then show "State_to_dict (Suc k) h c = Some (Inl (ValueError ''No initial state.''))"
    by simp
qed

theorem to_dict_unset_initial_state_witness:
  "machine_states example_machine = [0, 1, 2] \<and>
   (\<exists>d. State_to_dict 3 example_store 0 = Some (Inr d)) \<and>
   (\<exists>d. State_to_dict 3 example_store 1 = Some (Inr d)) \<and>
   (\<exists>d. State_to_dict 3 example_store 2 = Some (Inr d)) \<and>
   machine_initial_state example_machine = None \<and>
   cls (State_at example_store 5) = CompositeState None \<and>
   (\<exists>d refs.
      StateMachine_to_dict 3 example_store example_machine = Some (Inr d) \<and>
      dict_get d ''refs'' = Some (PDict refs) \<and>
      dict_get refs ''initialState'' = Some (PStr '''')) \<and>
   State_to_dict 3 example_store 5 = Some (Inl (ValueError ''No initial state.''))"
proof -
  have s: "\<forall>s \<in> set (machine_states example_machine).
      \<exists>d. State_to_dict 3 example_store s = Some (Inr d)"
    by (simp add: example_defs example_machine_def StateMachine_init_def eval_nat_numeral)
  have i: "machine_initial_state example_machine = None"
    by (simp add: example_machine_def StateMachine_init_def)
  have c: "cls (State_at example_store 5) = CompositeState None"
    by (simp add: example_defs)
  have l: "machine_states example_machine = [0, 1, 2]"
    by (simp add: example_machine_def StateMachine_init_def)
  from s i c l to_dict_unset_initial_state [of example_machine 3 example_store 5]
    to_dict_unset_initial_state [of example_machine 2 example_store 5]
  show ?thesis by (simp add: eval_nat_numeral)
qed

text \<open>
  Claim C4 as stated fails on the machine \<open>unentered_machine\<close>: its initial state is unset
  and its serialization raises, because its second state is a composite state whose initial
  state is unset.
\<close>

theorem to_dict_unset_initial_state_counterexample:
  "machine_initial_state unentered_machine = None \<and>
   StateMachine_to_dict 3 example_store unentered_machine =
     Some (Inl (ValueError ''No initial state.''))"
  by (simp add: example_defs unentered_machine_def StateMachine_init_def StateMachine_to_dict_def
      eval_nat_numeral)

section \<open>Nested initial states\<close>

lemma initial_chain_resolves:
  "initial_chain h c path t \<Longrightarrow>
   State_get_nested_initial_state (Suc (length path + k)) h c = Some (Inr t)"
proof (induction path arbitrary: c)
  case Nil
  then show ?case by simp
next
  case (Cons x xs)
  from Cons.prems obtain i
    where i: "cls (State_at h c) = CompositeState (Some i)" "init_target i = x"
      and rest: "initial_chain h x xs t"
    by (auto split: StateClass.splits option.splits)
  from Cons.IH [OF rest] i show ?case by simp
qed

text \<open>
  Claim C1. \<open>get_nested_initial_state\<close> of a simple state returns that state; for a composite
  state \<open>c\<close> whose initial states lead, through the composite states of \<open>path\<close>, to the simple
  state \<open>t\<close>, it returns \<open>t\<close>, whatever the length of \<open>path\<close> (given the \<open>length path + 1\<close>
  nested calls the chain takes, or more).
\<close>

theorem get_nested_initial_state_resolves:
  "(cls (State_at h s) = SimpleState \<longrightarrow>
      State_get_nested_initial_state (Suc k) h s = Some (Inr s)) \<and>
   (initial_chain h c path t \<longrightarrow>
      State_get_nested_initial_state (Suc (length path + k)) h c = Some (Inr t))"
proof (intro conjI impI)
  assume "cls (State_at h s) = SimpleState"
  then show "State_get_nested_initial_state (Suc k) h s = Some (Inr s)"
    by simp
next
  assume "initial_chain h c path t"
  then show "State_get_nested_initial_state (Suc (length path + k)) h c = Some (Inr t)"
    by (rule initial_chain_resolves)
qed

theorem get_nested_initial_state_resolves_witness:
  "cls (State_at example_store 0) = SimpleState \<and>
   State_get_nested_initial_state 1 example_store 0 = Some (Inr 0) \<and>
   initial_chain example_store 2 [3, 4] 4 \<and>
   State_get_nested_initial_state 3 example_store 2 = Some (Inr 4)"
proof -
  have s: "cls (State_at example_store 0) = SimpleState"
    by (simp add: example_defs)
  have c: "initial_chain example_store 2 [3, 4] 4"
    by (simp add: example_defs)
  from s c get_nested_initial_state_resolves [of example_store 0 0 2 "[3, 4]" 4]
  show ?thesis by (simp add: eval_nat_numeral)
qed

section \<open>Termination of the recursive queries\<close>

lemma get_nested_initial_state_returns:
  assumes wf: "wf ((contains_rel h)\<inverse>)"
    and contained: "\<forall>c. initial_target_contained h c"
  shows "\<exists>n r. \<forall>k\<ge>n. State_get_nested_initial_state k h s = Some r"
  using wf
proof (induction s rule: wf_induct_rule)
  case (less s)
  show ?case
  proof (cases "cls (State_at h s)")
    case SimpleState
    then have "\<forall>k\<ge>1. State_get_nested_initial_state k h s = Some (Inr s)"
      by (auto simp: Suc_le_eq gr0_conv_Suc)
    then show ?thesis by blast
  next
    case (CompositeState initial_state)
    show ?thesis
    proof (cases initial_state)
      case None
      with CompositeState
      have "\<forall>k\<ge>1. State_get_nested_initial_state k h s =
          Some (Inl (ValueError ''No initial state.''))"
        by (auto simp: Suc_le_eq gr0_conv_Suc)
      then show ?thesis by blast
    next
      case (Some i)
      from contained have "initial_target_contained h s" ..
      with CompositeState Some have "(init_target i, s) \<in> (contains_rel h)\<inverse>"
        by (simp add: initial_target_contained_def contains_rel_def)
      from less.IH [OF this] obtain n r
        where n: "\<forall>k\<ge>n. State_get_nested_initial_state k h (init_target i) = Some r"
        by blast
      have "\<forall>k\<ge>Suc n. State_get_nested_initial_state k h s = Some r"
      proof (intro allI impI)
        fix k assume "Suc n \<le> k"
        then obtain j where j: "k = Suc j" "n \<le> j"
          by (cases k) auto
        with n CompositeState Some show "State_get_nested_initial_state k h s = Some r"
          by simp
      qed
      then show ?thesis by blast
    qed
  qed
qed

lemma get_depth_returns:
  assumes wf: "wf ((parent_rel h)\<inverse>)"
  shows "\<exists>n d. \<forall>k\<ge>n. get_depth k h s = Some d"
  using wf
proof (induction s rule: wf_induct_rule)
  case (less s)
  show ?case
  proof (cases "parent_state (State_at h s)")
    case None
    then have "\<forall>k\<ge>1. get_depth k h s = Some 0"
      by (auto simp: Suc_le_eq gr0_conv_Suc)
    then show ?thesis by blast
  next
    case (Some p)
    then have "(p, s) \<in> (parent_rel h)\<inverse>"
      by (simp add: parent_rel_def)
    from less.IH [OF this] obtain n d where n: "\<forall>k\<ge>n. get_depth k h p = Some d"
      by blast
    have "\<forall>k\<ge>Suc n. get_depth k h s = Some (d + 1)"
    proof (intro allI impI)
      fix k assume "Suc n \<le> k"
      then obtain j where j: "k = Suc j" "n \<le> j"
        by (cases k) auto
      with n Some show "get_depth k h s = Some (d + 1)"
        by simp
    qed
    then show ?thesis by blast
  qed
qed

lemma get_depth_equation:
  assumes wf: "wf ((parent_rel h)\<inverse>)"
  shows "\<exists>n d. \<forall>k\<ge>n. get_depth k h s = Some d \<and>
     (case parent_state (State_at h s) of
        None \<Rightarrow> d = 0
      | Some p \<Rightarrow> get_depth k h p = Some (d - 1))"
proof (cases "parent_state (State_at h s)")
  case None
  then have "\<forall>k\<ge>1. get_depth k h s = Some 0"
    by (auto simp: Suc_le_eq gr0_conv_Suc)
  with None show ?thesis by auto
next
  case (Some p)
  from get_depth_returns [OF wf] obtain n d where n: "\<forall>k\<ge>n. get_depth k h p = Some d"
    by blast
  have "\<forall>k\<ge>Suc n. get_depth k h s = Some (d + 1) \<and> get_depth k h p = Some (d + 1 - 1)"
  proof (intro allI impI)
    fix k assume k: "Suc n \<le> k"
    with n have parent: "get_depth k h p = Some d"
      by simp
    from k obtain j where j: "k = Suc j" "n \<le> j"
      by (cases k) auto
    with n have "get_depth j h p = Some d"
      by simp
    with Some j have "get_depth k h s = Some (d + 1)"
      by simp
    with parent show "get_depth k h s = Some (d + 1) \<and> get_depth k h p = Some (d + 1 - 1)"
      by simp
  qed
  then have "\<exists>n. \<forall>k\<ge>n. get_depth k h s = Some (d + 1) \<and> get_depth k h p = Some (d + 1 - 1)"
    by (rule exI)
  then have "\<exists>n e. \<forall>k\<ge>n. get_depth k h s = Some e \<and> get_depth k h p = Some (e - 1)"
    by blast
  with Some show ?thesis by simp
qed

text \<open>
  Claim C9, as the code has it. In a finite tree whose containment relation is acyclic and in
  which the initial state of every composite state targets a state that the composite contains
  directly, \<open>get_nested_initial_state\<close> returns (a state, or the error of a missing initial
  state) on every state, given enough nested calls. In a finite tree whose parent links are
  acyclic, \<open>get_depth\<close> returns on every state, given enough nested calls: 0 for a state
  without parent, and otherwise the depth of the parent plus 1.
\<close>

theorem nested_initial_state_and_depth_return:
  "(finite (contains_rel h) \<and> acyclic (contains_rel h) \<and> (\<forall>c. initial_target_contained h c) \<longrightarrow>
      (\<exists>n r. \<forall>k\<ge>n. State_get_nested_initial_state k h s = Some r)) \<and>
   (finite (parent_rel h) \<and> acyclic (parent_rel h) \<longrightarrow>
      (\<exists>n d. \<forall>k\<ge>n. get_depth k h s = Some d \<and>
         (case parent_state (State_at h s) of
            None \<Rightarrow> d = 0
          | Some p \<Rightarrow> get_depth k h p = Some (d - 1))))"
proof (intro conjI impI)
  assume "finite (contains_rel h) \<and> acyclic (contains_rel h) \<and>
    (\<forall>c. initial_target_contained h c)"
  then have "wf ((contains_rel h)\<inverse>)" and "\<forall>c. initial_target_contained h c"
    by (simp_all add: finite_acyclic_wf_converse)
  then show "\<exists>n r. \<forall>k\<ge>n. State_get_nested_initial_state k h s = Some r"
    by (rule get_nested_initial_state_returns)
next
  assume "finite (parent_rel h) \<and> acyclic (parent_rel h)"
  then have "wf ((parent_rel h)\<inverse>)"
    by (simp add: finite_acyclic_wf_converse)
  then show "\<exists>n d. \<forall>k\<ge>n. get_depth k h s = Some d \<and>
      (case parent_state (State_at h s) of
         None \<Rightarrow> d = 0
       | Some p \<Rightarrow> get_depth k h p = Some (d - 1))"
    by (rule get_depth_equation)
qed

lemma parent_rel_example: "parent_rel example_store = {(3, 2), (4, 3)}"
  by (auto simp: parent_rel_def example_defs split: if_splits)

lemma initial_target_contained_example: "initial_target_contained example_store c"
  by (simp add: initial_target_contained_def example_defs)

theorem nested_initial_state_and_depth_return_witness:
  "finite (contains_rel example_store) \<and> acyclic (contains_rel example_store) \<and>
   (\<forall>c. initial_target_contained example_store c) \<and>
   finite (parent_rel example_store) \<and> acyclic (parent_rel example_store) \<and>
   (\<exists>n r. State_get_nested_initial_state n example_store 2 = Some r) \<and>
   (\<exists>n d. get_depth n example_store 4 = Some d \<and> get_depth n example_store 3 = Some (d - 1))"
proof -
  have c: "finite (contains_rel example_store) \<and> acyclic (contains_rel example_store) \<and>
      (\<forall>c. initial_target_contained example_store c)"
    by (simp add: contains_rel_example initial_target_contained_example rtrancl_insert
        acyclic_empty_rel)
  have p: "finite (parent_rel example_store) \<and> acyclic (parent_rel example_store)"
    by (simp add: parent_rel_example rtrancl_insert acyclic_empty_rel)
  have s: "parent_state (State_at example_store 4) = Some 3"
    by (simp add: example_defs)
  from nested_initial_state_and_depth_return [of example_store 2] c
  have "\<exists>n r. State_get_nested_initial_state n example_store 2 = Some r"
    by blast
  moreover from nested_initial_state_and_depth_return [of example_store 4] p s
  have "\<exists>n d. get_depth n example_store 4 = Some d \<and> get_depth n example_store 3 = Some (d - 1)"
    by fastforce
  ultimately show ?thesis using c p by blast
qed

lemma self_entered_never_returns: "State_get_nested_initial_state k self_entered_store 0 = None"
  by (induction k)
    (simp_all add: self_entered_store_def blank_store_def InitialState_init_def
      CompositeState_init_def State_init_def SimpleState_init_def)

text \<open>
  Claim C9 as stated fails on the composite state of \<open>self_entered_store\<close>: no state contains
  a state and no state has a parent, so containment and parent links are acyclic, yet
  \<open>get_nested_initial_state\<close> does not return on it whatever the number of nested calls.
\<close>

theorem nested_initial_state_counterexample:
  "contains_rel self_entered_store = {} \<and> parent_rel self_entered_store = {} \<and>
   acyclic (contains_rel self_entered_store) \<and> acyclic (parent_rel self_entered_store) \<and>
   (\<forall>k. State_get_nested_initial_state k self_entered_store 0 = None)"
proof -
  have c: "contains_rel self_entered_store = {}"
    by (auto simp: contains_rel_def self_entered_store_def blank_store_def
        CompositeState_init_def State_init_def SimpleState_init_def)
  have p: "parent_rel self_entered_store = {}"
    by (auto simp: parent_rel_def self_entered_store_def blank_store_def
        CompositeState_init_def State_init_def SimpleState_init_def)
  from c p self_entered_never_returns show ?thesis by (simp add: acyclic_empty_rel)
qed

section \<open>Creating transitions\<close>

lemma next_Transition_create_transition:
  "next_Transition (create_transition h new_id s g inp out loc) = Suc (next_Transition h)"
  by (simp add: create_transition_def append_outgoing_def append_incoming_def Let_def)

lemma Transition_at_create_transition:
  "Transition_at (create_transition h new_id s g inp out loc) t =
     (if t = next_Transition h then Transition_init new_id s g inp out loc
      else Transition_at h t)"
  by (simp add: create_transition_def append_outgoing_def append_incoming_def Let_def)

lemma outgoing_create_transition:
  "outgoing_transitions (State_at (create_transition h new_id s g inp out loc) r) =
     outgoing_transitions (State_at h r) @ (if r = s then [next_Transition h] else [])"
  by (simp add: create_transition_def append_outgoing_def append_incoming_def Let_def)

lemma incoming_create_transition:
  "incoming_transitions (State_at (create_transition h new_id s g inp out loc) r) =
     incoming_transitions (State_at h r) @ (if r = g then [next_Transition h] else [])"
  by (simp add: create_transition_def append_outgoing_def append_incoming_def Let_def)

lemma count_list_beyond:
  "set xs \<subseteq> {..<n} \<Longrightarrow> count_list xs (n::nat) = 0"
  by (auto simp: count_list_0_iff)

lemma adjacency_inv_create_transition:
  assumes inv: "adjacency_inv h"
  shows "adjacency_inv (create_transition h new_id s g inp out loc)"
proof -
  let ?n = "next_Transition h"
  from inv have bound:
    "\<And>r. set (outgoing_transitions (State_at h r)) \<subseteq> {..<?n}"
    "\<And>r. set (incoming_transitions (State_at h r)) \<subseteq> {..<?n}"
    and old:
    "\<And>t r. t < ?n \<Longrightarrow> count_list (outgoing_transitions (State_at h r)) t =
        (if r = source (Transition_at h t) then 1 else 0)"
    "\<And>t r. t < ?n \<Longrightarrow> count_list (incoming_transitions (State_at h r)) t =
        (if r = target (Transition_at h t) then 1 else 0)"
    by (simp_all add: adjacency_inv_def)
  from bound have below:
    "\<And>r x. x \<in> set (outgoing_transitions (State_at h r)) \<Longrightarrow> x < ?n"
    "\<And>r x. x \<in> set (incoming_transitions (State_at h r)) \<Longrightarrow> x < ?n"
    by blast+
  have fresh:
    "\<And>r. count_list (outgoing_transitions (State_at h r)) ?n = 0"
    "\<And>r. count_list (incoming_transitions (State_at h r)) ?n = 0"
    using bound by (simp_all add: count_list_beyond)
  have lists: "\<forall>r.
      set (outgoing_transitions (State_at (create_transition h new_id s g inp out loc) r))
        \<subseteq> {..<Suc ?n} \<and>
      set (incoming_transitions (State_at (create_transition h new_id s g inp out loc) r))
        \<subseteq> {..<Suc ?n}"
    using below
    by (auto simp: outgoing_create_transition incoming_create_transition less_Suc_eq)
  have counts: "\<forall>t<Suc ?n. \<forall>r.
      count_list (outgoing_transitions (State_at (create_transition h new_id s g inp out loc) r)) t =
        (if r = source (Transition_at (create_transition h new_id s g inp out loc) t)
         then 1 else 0) \<and>
      count_list (incoming_transitions (State_at (create_transition h new_id s g inp out loc) r)) t =
        (if r = target (Transition_at (create_transition h new_id s g inp out loc) t)
         then 1 else 0)"
  proof (intro allI impI)
    fix t r assume "t < Suc ?n"
    then consider "t = ?n" | "t < ?n" by (auto simp: less_Suc_eq)
    then show "count_list
         (outgoing_transitions (State_at (create_transition h new_id s g inp out loc) r)) t =
        (if r = source (Transition_at (create_transition h new_id s g inp out loc) t)
         then 1 else 0) \<and>
      count_list
         (incoming_transitions (State_at (create_transition h new_id s g inp out loc) r)) t =
        (if r = target (Transition_at (create_transition h new_id s g inp out loc) t)
         then 1 else 0)"
    proof cases
      case 1
      with fresh show ?thesis
        by (simp add: outgoing_create_transition incoming_create_transition
            Transition_at_create_transition Transition_init_def)
    next
      case 2
      with old show ?thesis
        by (simp add: outgoing_create_transition incoming_create_transition
            Transition_at_create_transition)
    qed
  qed
  from lists counts show ?thesis
    by (simp add: adjacency_inv_def next_Transition_create_transition)
qed

lemma adjacency_inv_run_calls:
  "adjacency_inv h \<Longrightarrow> adjacency_inv (run_calls h calls)"
  unfolding run_calls_def
proof (induction calls arbitrary: h)
  case Nil
  then show ?case by simp
next
  case (Cons c cs)
  obtain new_id s g inp out loc where c: "c = Create_transition new_id s g inp out loc"
    by (cases c)
  from Cons.prems have "adjacency_inv (run_call h c)"
    by (simp add: c adjacency_inv_create_transition)
  from Cons.IH [OF this] show ?case by simp
qed

lemma adjacency_inv_fresh:
  assumes "next_Transition h = 0"
    and "\<forall>r. outgoing_transitions (State_at h r) = [] \<and> incoming_transitions (State_at h r) = []"
  shows "adjacency_inv h"
  using assms by (simp add: adjacency_inv_def)

lemma example_tree_fresh:
  "next_Transition example_tree = 0"
  "\<forall>r. outgoing_transitions (State_at example_tree r) = [] \<and>
       incoming_transitions (State_at example_tree r) = []"
  by (simp_all add: example_tree_def example_states_def blank_store_def
      State_init_def SimpleState_init_def CompositeState_init_def)

text \<open>
  Claim C8, as the code has it. After any sequence of \<open>create_transition\<close> calls on a tree
  of freshly constructed states (no transition exists and every adjacency list is empty), every
  transition occurs exactly once in the outgoing list of its source and in no other outgoing
  list, and exactly once in the incoming list of its target and in no other incoming list.
  More generally, a sequence of \<open>create_transition\<close> calls keeps this invariant wherever it
  holds before the calls.
\<close>

theorem create_transition_adjacency:
  "(next_Transition h = 0 \<and>
    (\<forall>r. outgoing_transitions (State_at h r) = [] \<and> incoming_transitions (State_at h r) = [])
      \<longrightarrow> adjacency_inv (run_calls h calls)) \<and>
   (adjacency_inv h \<longrightarrow> adjacency_inv (run_calls h calls))"
  by (simp add: adjacency_inv_run_calls adjacency_inv_fresh)

theorem create_transition_adjacency_witness:
  "next_Transition example_tree = 0 \<and>
   (\<forall>r. outgoing_transitions (State_at example_tree r) = [] \<and>
        incoming_transitions (State_at example_tree r) = []) \<and>
   run_calls example_tree
     [Create_transition ''t0'' 0 1 (Some ''x'') (Some ''y'') None,
      Create_transition ''t1'' 0 0 None None None] = example_store \<and>
   next_Transition example_store = 2 \<and>
   source (Transition_at example_store 1) = 0 \<and>
   target (Transition_at example_store 1) = 0 \<and>
   count_list (outgoing_transitions (State_at example_store 0)) 1 = 1 \<and>
   count_list (incoming_transitions (State_at example_store 0)) 1 = 1 \<and>
   count_list (outgoing_transitions (State_at example_store 1)) 1 = 0 \<and>
   count_list (incoming_transitions (State_at example_store 1)) 1 = 0"
proof -
  have r: "run_calls example_tree
     [Create_transition ''t0'' 0 1 (Some ''x'') (Some ''y'') None,
      Create_transition ''t1'' 0 0 None None None] = example_store"
    by (simp add: run_calls_def example_store_def)
  have n: "next_Transition example_store = 2"
    by (simp add: example_defs)
  have t: "source (Transition_at example_store 1) = 0" "target (Transition_at example_store 1) = 0"
    by (simp_all add: example_defs)
  from create_transition_adjacency [of example_tree
      "[Create_transition ''t0'' 0 1 (Some ''x'') (Some ''y'') None,
        Create_transition ''t1'' 0 0 None None None]"] example_tree_fresh
  have "adjacency_inv example_store"
    by (simp only: r simp_thms)
  then have "\<forall>r. count_list (outgoing_transitions (State_at example_store r)) 1 =
        (if r = source (Transition_at example_store 1) then 1 else 0) \<and>
      count_list (incoming_transitions (State_at example_store r)) 1 =
        (if r = target (Transition_at example_store 1) then 1 else 0)"
    by (simp add: adjacency_inv_def n)
  with r n t example_tree_fresh show ?thesis by simp
qed

text \<open>
  Claim C8 as stated fails on \<open>add_transitions\<close>, a second method that mutates the adjacency
  lists: called on the state \<open>B\<close> of the sample tree with the transition \<open>t0\<close> (whose source
  is \<open>A\<close>), it puts \<open>t0\<close> into the outgoing list of \<open>B\<close> and a second time into the incoming
  list of \<open>B\<close>.
\<close>

theorem add_transitions_counterexample:
  "source (Transition_at example_store 0) = 0 \<and>
   outgoing_transitions (State_at example_store 1) = [] \<and>
   incoming_transitions (State_at example_store 1) = [0] \<and>
   outgoing_transitions (State_at (add_transitions example_store 1 [0]) 1) = [0] \<and>
   incoming_transitions (State_at (add_transitions example_store 1 [0]) 1) = [0, 0]"
  by (simp add: add_transitions_def example_defs)

end
